theory Spec2Isabelle
  imports Main "HOL-Library.Sublist"
begin

section \<open>Platform: the URL constructor\<close>

text \<open>
  \<^verbatim>\<open>src/index.ts\<close> calls \<^verbatim>\<open>new URL(s)\<close> in \<^verbatim>\<open>isValidUrl\<close>, \<^verbatim>\<open>mirror\<close> and
  \<^verbatim>\<open>extractDomainName\<close>. The constructor is the platform's, not the repository's; it is
  modelled here after the basic URL parser of the WHATWG URL standard, called as the
  program calls it: no base URL, no state override. Strings are byte strings (UTF-8), so
  a code point outside ASCII is percent-encoded byte by byte, as the standard's UTF-8
  percent-encoding does. Three parts of the standard are left out because the program
  never reads them: the credentials of the authority, the query and the fragment (none
  of them can make parsing fail). The host parser (IDNA, IPv4 and IPv6 literals) is a
  parameter: given the opaque flag and the host text it returns the serialised host, or
  \<open>None\<close> for failure.
\<close>

type_synonym host_parser = "bool \<Rightarrow> string \<Rightarrow> string option"

datatype url_path = Opaque string | Segments "string list"

record url =
  scheme :: string
  host :: "string option"
  port :: "nat option"
  path :: url_path

definition code :: "char \<Rightarrow> nat" where
  "code c = of_char c"

definition is_c0_or_space :: "char \<Rightarrow> bool" where
  "is_c0_or_space c = (code c \<le> 32)"

definition is_tab_or_newline :: "char \<Rightarrow> bool" where
  "is_tab_or_newline c = (code c = 9 \<or> code c = 10 \<or> code c = 13)"

definition is_upper :: "char \<Rightarrow> bool" where
  "is_upper c = (65 \<le> code c \<and> code c \<le> 90)"

definition is_alpha :: "char \<Rightarrow> bool" where
  "is_alpha c = (is_upper c \<or> (97 \<le> code c \<and> code c \<le> 122))"

definition is_digit :: "char \<Rightarrow> bool" where
  "is_digit c = (48 \<le> code c \<and> code c \<le> 57)"

definition is_alnum :: "char \<Rightarrow> bool" where
  "is_alnum c = (is_alpha c \<or> is_digit c)"

definition to_lower :: "char \<Rightarrow> char" where
  "to_lower c = (if is_upper c then char_of (code c + 32) else c)"

definition backslash :: char where
  "backslash = CHR 0x5C"

definition special_schemes :: "string list" where
  "special_schemes = [''ftp'', ''file'', ''http'', ''https'', ''ws'', ''wss'']"

definition is_special :: "string \<Rightarrow> bool" where
  "is_special sch = (sch \<in> set special_schemes)"

definition default_port :: "string \<Rightarrow> nat option" where
  "default_port sch =
     (if sch = ''ftp'' then Some 21
      else if sch = ''http'' \<or> sch = ''ws'' then Some 80
      else if sch = ''https'' \<or> sch = ''wss'' then Some 443
      else None)"

subsection \<open>Path state\<close>

definition hex_digit :: "nat \<Rightarrow> char" where
  "hex_digit n = (if n < 10 then char_of (48 + n) else char_of (55 + n))"

text \<open>
  The characters that the constructor of Node.js percent-encodes in a path: the controls,
  everything above \<^verbatim>\<open>~\<close>, the space, the double quote, \<^verbatim>\<open>#\<close>, \<^verbatim>\<open><\<close>, \<^verbatim>\<open>>\<close>, \<^verbatim>\<open>?\<close>, the backquote
  and the two braces. The caret is left as it is.
\<close>

definition in_path_percent_encode_set :: "char \<Rightarrow> bool" where
  "in_path_percent_encode_set c =
     (code c \<le> 31 \<or> code c > 126
      \<or> code c \<in> {32, 34, 35, 60, 62} \<or> code c \<in> {63, 96, 123, 125})"

definition percent_encode_path :: "char \<Rightarrow> string" where
  "percent_encode_path c =
     (if in_path_percent_encode_set c
      then [CHR ''%'', hex_digit (code c div 16), hex_digit (code c mod 16)]
      else [c])"

definition is_single_dot :: "string \<Rightarrow> bool" where
  "is_single_dot s = (map to_lower s \<in> {''.'', ''%2e''})"

definition is_double_dot :: "string \<Rightarrow> bool" where
  "is_double_dot s = (map to_lower s \<in> {''..'', ''.%2e'', ''%2e.'', ''%2e%2e''})"

definition is_windows_drive_letter :: "string \<Rightarrow> bool" where
  "is_windows_drive_letter s =
     (case s of [a, b] \<Rightarrow> is_alpha a \<and> (b = CHR '':'' \<or> b = CHR ''|'') | _ \<Rightarrow> False)"

definition is_normalized_windows_drive_letter :: "string \<Rightarrow> bool" where
  "is_normalized_windows_drive_letter s =
     (case s of [a, b] \<Rightarrow> is_alpha a \<and> b = CHR '':'' | _ \<Rightarrow> False)"

definition shorten_path :: "string \<Rightarrow> string list \<Rightarrow> string list" where
  "shorten_path sch p =
     (if sch = ''file'' \<and> length p = 1 \<and> is_normalized_windows_drive_letter (hd p)
      then p else butlast p)"

text \<open>
  The end of one path segment: \<open>slash\<close> says that the segment was ended by a slash
  (for a special scheme, also by a backslash) rather than by the end of the path.
\<close>

definition end_segment :: "string \<Rightarrow> string list \<Rightarrow> string \<Rightarrow> bool \<Rightarrow> string list" where
  "end_segment sch p buf slash =
     (if is_double_dot buf
      then (if slash then shorten_path sch p else shorten_path sch p @ [''''])
      else if is_single_dot buf \<and> \<not> slash then p @ ['''']
      else if \<not> is_single_dot buf
      then p @ [if sch = ''file'' \<and> p = [] \<and> is_windows_drive_letter buf
                then [hd buf, CHR '':''] else buf]
      else p)"

fun path_state :: "string \<Rightarrow> string list \<Rightarrow> string \<Rightarrow> string \<Rightarrow> string list" where
  "path_state sch p buf [] = end_segment sch p buf False"
| "path_state sch p buf (c # cs) =
     (if c = CHR ''/'' \<or> (is_special sch \<and> c = backslash)
      then path_state sch (end_segment sch p buf True) [] cs
      else if c = CHR ''?'' \<or> c = CHR ''#''
      then end_segment sch p buf False
      else path_state sch p (buf @ percent_encode_path c) cs)"

definition path_start_state :: "string \<Rightarrow> string \<Rightarrow> string list" where
  "path_start_state sch inp =
     (if is_special sch
      then (case inp of
              c # cs \<Rightarrow> if c = CHR ''/'' \<or> c = backslash then path_state sch [] [] cs
                        else path_state sch [] [] inp
            | [] \<Rightarrow> path_state sch [] [] [])
      else (case inp of
              [] \<Rightarrow> []
            | c # cs \<Rightarrow> if c = CHR ''?'' \<or> c = CHR ''#'' then []
                        else if c = CHR ''/'' then path_state sch [] [] cs
                        else path_state sch [] [] inp))"

text \<open>The opaque path of a URL such as \<^verbatim>\<open>mailto:a@b.c\<close>: everything up to the query or fragment,
  with the C0 control percent-encode set applied.\<close>

definition percent_encode_c0 :: "char \<Rightarrow> string" where
  "percent_encode_c0 c =
     (if code c \<le> 31 \<or> code c > 126
      then [CHR ''%'', hex_digit (code c div 16), hex_digit (code c mod 16)]
      else [c])"

fun opaque_path_state :: "string \<Rightarrow> string \<Rightarrow> string" where
  "opaque_path_state buf [] = buf"
| "opaque_path_state buf (c # cs) =
     (if c = CHR ''?'' \<or> c = CHR ''#'' then buf
      else opaque_path_state (buf @ percent_encode_c0 c) cs)"

subsection \<open>Authority, host and port states\<close>

definition is_terminator :: "bool \<Rightarrow> char \<Rightarrow> bool" where
  "is_terminator special c =
     (c = CHR ''/'' \<or> c = CHR ''?'' \<or> c = CHR ''#'' \<or> (special \<and> c = backslash))"

definition decimal :: "string \<Rightarrow> nat" where
  "decimal ds = foldl (\<lambda>n d. 10 * n + (code d - 48)) 0 ds"

definition end_port :: "string \<Rightarrow> string \<Rightarrow> string \<Rightarrow> (nat option \<times> string list) option" where
  "end_port sch buf inp =
     (if buf = [] then Some (None, path_start_state sch inp)
      else if decimal buf > 65535 then None
      else Some (if default_port sch = Some (decimal buf) then None else Some (decimal buf),
                 path_start_state sch inp))"

fun port_state :: "string \<Rightarrow> string \<Rightarrow> string \<Rightarrow> (nat option \<times> string list) option" where
  "port_state sch buf [] = end_port sch buf []"
| "port_state sch buf (c # cs) =
     (if is_digit c then port_state sch (buf @ [c]) cs
      else if is_terminator (is_special sch) c then end_port sch buf (c # cs)
      else None)"

definition mk_url :: "string \<Rightarrow> string \<Rightarrow> nat option \<times> string list \<Rightarrow> url" where
  "mk_url sch h pp = \<lparr>scheme = sch, host = Some h, port = fst pp, path = Segments (snd pp)\<rparr>"

definition end_host :: "host_parser \<Rightarrow> string \<Rightarrow> string \<Rightarrow> string \<Rightarrow> url option" where
  "end_host hp sch buf inp =
     (if is_special sch \<and> buf = [] then None
      else (case hp (\<not> is_special sch) buf of
              None \<Rightarrow> None
            | Some h \<Rightarrow> Some (mk_url sch h (None, path_start_state sch inp))))"

fun host_state :: "host_parser \<Rightarrow> string \<Rightarrow> bool \<Rightarrow> string \<Rightarrow> string \<Rightarrow> url option" where
  "host_state hp sch inside buf [] = end_host hp sch buf []"
| "host_state hp sch inside buf (c # cs) =
     (if c = CHR '':'' \<and> \<not> inside
      then (if buf = [] then None
            else (case hp (\<not> is_special sch) buf of
                    None \<Rightarrow> None
                  | Some h \<Rightarrow> map_option (mk_url sch h) (port_state sch [] cs)))
      else if is_terminator (is_special sch) c then end_host hp sch buf (c # cs)
      else host_state hp sch
             (if c = CHR ''['' then True else if c = CHR '']'' then False else inside)
             (buf @ [c]) cs)"

text \<open>
  The authority state buffers up to the end of the authority. An \<^verbatim>\<open>@\<close> turns what was
  buffered into credentials (dropped here); at the end the buffer is handed to the host
  state again, followed by the rest of the input.
\<close>

fun authority_state :: "host_parser \<Rightarrow> string \<Rightarrow> bool \<Rightarrow> string \<Rightarrow> string \<Rightarrow> url option" where
  "authority_state hp sch at_seen buf [] =
     (if at_seen \<and> buf = [] then None else host_state hp sch False [] buf)"
| "authority_state hp sch at_seen buf (c # cs) =
     (if c = CHR ''@'' then authority_state hp sch True [] cs
      else if is_terminator (is_special sch) c
      then (if at_seen \<and> buf = [] then None else host_state hp sch False [] (buf @ c # cs))
      else authority_state hp sch at_seen (buf @ [c]) cs)"

definition special_authority_slashes_state :: "host_parser \<Rightarrow> string \<Rightarrow> string \<Rightarrow> url option" where
  "special_authority_slashes_state hp sch inp =
     authority_state hp sch False []
       (dropWhile (\<lambda>c. c = CHR ''/'' \<or> c = backslash) inp)"

definition path_or_authority_state :: "host_parser \<Rightarrow> string \<Rightarrow> string \<Rightarrow> url option" where
  "path_or_authority_state hp sch inp =
     (case inp of
        c # cs \<Rightarrow>
          if c = CHR ''/'' then authority_state hp sch False [] cs
          else Some \<lparr>scheme = sch, host = None, port = None,
                     path = Segments (path_state sch [] [] inp)\<rparr>
      | [] \<Rightarrow> Some \<lparr>scheme = sch, host = None, port = None,
                    path = Segments (path_state sch [] [] [])\<rparr>)"

subsection \<open>File states\<close>

definition file_url :: "string \<Rightarrow> string list \<Rightarrow> url" where
  "file_url h p = \<lparr>scheme = ''file'', host = Some h, port = None, path = Segments p\<rparr>"

definition end_file_host :: "host_parser \<Rightarrow> string \<Rightarrow> string \<Rightarrow> url option" where
  "end_file_host hp buf inp =
     (if is_windows_drive_letter buf then Some (file_url '''' (path_state ''file'' [] buf inp))
      else if buf = [] then Some (file_url '''' (path_start_state ''file'' inp))
      else (case hp False buf of
              None \<Rightarrow> None
            | Some h \<Rightarrow>
                Some (file_url (if h = ''localhost'' then '''' else h)
                        (path_start_state ''file'' inp))))"

fun file_host_state :: "host_parser \<Rightarrow> string \<Rightarrow> string \<Rightarrow> url option" where
  "file_host_state hp buf [] = end_file_host hp buf []"
| "file_host_state hp buf (c # cs) =
     (if is_terminator True c then end_file_host hp buf (c # cs)
      else file_host_state hp (buf @ [c]) cs)"

definition file_slash_state :: "host_parser \<Rightarrow> string \<Rightarrow> url option" where
  "file_slash_state hp inp =
     (case inp of
        c # cs \<Rightarrow>
          if c = CHR ''/'' \<or> c = backslash then file_host_state hp [] cs
          else Some (file_url '''' (path_state ''file'' [] [] inp))
      | [] \<Rightarrow> Some (file_url '''' (path_state ''file'' [] [] [])))"

definition file_state :: "host_parser \<Rightarrow> string \<Rightarrow> url option" where
  "file_state hp inp =
     (case inp of
        c # cs \<Rightarrow>
          if c = CHR ''/'' \<or> c = backslash then file_slash_state hp cs
          else Some (file_url '''' (path_state ''file'' [] [] inp))
      | [] \<Rightarrow> Some (file_url '''' (path_state ''file'' [] [] [])))"

subsection \<open>Scheme states and the constructor\<close>

text \<open>
  The scheme state returns the lower-cased scheme and what follows the colon. Without a
  colon after a run of scheme characters the standard moves to the no-scheme state,
  which fails when there is no base URL: that is \<open>None\<close> here.
\<close>

fun scheme_state :: "string \<Rightarrow> string \<Rightarrow> (string \<times> string) option" where
  "scheme_state buf [] = None"
| "scheme_state buf (c # cs) =
     (if is_alnum c \<or> c = CHR ''+'' \<or> c = CHR ''-'' \<or> c = CHR ''.''
      then scheme_state (buf @ [to_lower c]) cs
      else if c = CHR '':'' then Some (buf, cs)
      else None)"

definition scheme_start_state :: "string \<Rightarrow> (string \<times> string) option" where
  "scheme_start_state inp =
     (case inp of
        c # cs \<Rightarrow> if is_alpha c then scheme_state [to_lower c] cs else None
      | [] \<Rightarrow> None)"

definition strip_input :: "string \<Rightarrow> string" where
  "strip_input s =
     filter (\<lambda>c. \<not> is_tab_or_newline c)
       (rev (dropWhile is_c0_or_space (rev (dropWhile is_c0_or_space s))))"

definition new_URL :: "host_parser \<Rightarrow> string \<Rightarrow> url option" where
  "new_URL hp s =
     (case scheme_start_state (strip_input s) of
        None \<Rightarrow> None
      | Some (sch, rest) \<Rightarrow>
          if sch = ''file'' then file_state hp rest
          else if is_special sch then special_authority_slashes_state hp sch rest
          else (case rest of
                  c # cs \<Rightarrow>
                    if c = CHR ''/'' then path_or_authority_state hp sch cs
                    else Some \<lparr>scheme = sch, host = None, port = None,
                               path = Opaque (opaque_path_state [] rest)\<rparr>
                | [] \<Rightarrow> Some \<lparr>scheme = sch, host = None, port = None,
                              path = Opaque (opaque_path_state [] [])\<rparr>))"

definition hostname :: "url \<Rightarrow> string" where
  "hostname u = (case host u of None \<Rightarrow> '''' | Some h \<Rightarrow> h)"

definition pathname :: "url \<Rightarrow> string" where
  "pathname u =
     (case path u of
        Opaque s \<Rightarrow> s
      | Segments p \<Rightarrow> concat (map (\<lambda>seg. CHR ''/'' # seg) p))"

section \<open>The URL validator\<close>

text \<open>
  \<^verbatim>\<open>isValidUrl\<close>: the empty string is falsy in JavaScript and is rejected before the
  constructor is called; otherwise the answer is whether the constructor threw.
\<close>

definition isValidUrl :: "host_parser \<Rightarrow> string \<Rightarrow> bool" where
  "isValidUrl hp urlString =
     (if urlString = [] then False
      else (case new_URL hp urlString of Some u \<Rightarrow> True | None \<Rightarrow> False))"

text \<open>\<^verbatim>\<open>extractDomainName\<close> throws where the constructor does.\<close>

definition extractDomainName :: "host_parser \<Rightarrow> string \<Rightarrow> string option" where
  "extractDomainName hp u = map_option hostname (new_URL hp u)"

text \<open>
  A host parser for the examples: it knows only non-empty names made of ASCII letters and
  dots, which the standard's host parser returns in lower case.
\<close>

definition letters_host :: host_parser where
  "letters_host opaque s =
     (if s \<noteq> [] \<and> list_all (\<lambda>c. is_alpha c \<or> c = CHR ''.'') s
      then Some (map to_lower s) else None)"

section \<open>Platform: the path module\<close>

text \<open>
  \<^verbatim>\<open>path.join\<close> and \<^verbatim>\<open>path.dirname\<close> of Node.js on POSIX. \<^verbatim>\<open>path.join\<close> drops empty
  arguments, joins the rest with a slash and normalises the result: empty and \<^verbatim>\<open>.\<close>
  segments vanish, \<^verbatim>\<open>..\<close> removes the segment before it, a trailing slash is kept.
\<close>

fun split_on_slash :: "string \<Rightarrow> string \<Rightarrow> string list" where
  "split_on_slash cur [] = [cur]"
| "split_on_slash cur (c # cs) =
     (if c = CHR ''/'' then cur # split_on_slash [] cs else split_on_slash (cur @ [c]) cs)"

definition split_path :: "string \<Rightarrow> string list" where
  "split_path p = split_on_slash [] p"

fun join_slash :: "string list \<Rightarrow> string" where
  "join_slash [] = []"
| "join_slash [s] = s"
| "join_slash (s # t # ss) = s @ CHR ''/'' # join_slash (t # ss)"

fun normalizeString :: "bool \<Rightarrow> string list \<Rightarrow> string list \<Rightarrow> string list" where
  "normalizeString allowAboveRoot res [] = res"
| "normalizeString allowAboveRoot res (seg # segs) =
     (if seg = [] \<or> seg = ''.'' then normalizeString allowAboveRoot res segs
      else if seg = ''..''
      then (if res \<noteq> [] \<and> last res \<noteq> ''..''
            then normalizeString allowAboveRoot (butlast res) segs
            else if allowAboveRoot then normalizeString allowAboveRoot (res @ [''..'']) segs
            else normalizeString allowAboveRoot res segs)
      else normalizeString allowAboveRoot (res @ [seg]) segs)"

definition normalize :: "string \<Rightarrow> string" where
  "normalize p =
     (if p = [] then ''.''
      else
        let isAbsolute = (hd p = CHR ''/'');
            trailingSeparator = (last p = CHR ''/'');
            res = join_slash (normalizeString (\<not> isAbsolute) [] (split_path p))
        in if res = [] then (if isAbsolute then ''/'' else if trailingSeparator then ''./'' else ''.'')
           else (if isAbsolute then ''/'' else []) @ res @ (if trailingSeparator then ''/'' else []))"

definition path_join :: "string list \<Rightarrow> string" where
  "path_join args =
     (let parts = filter (\<lambda>a. a \<noteq> []) args
      in if parts = [] then ''.'' else normalize (join_slash parts))"

definition dirname :: "string \<Rightarrow> string" where
  "dirname p =
     (if p = [] then ''.''
      else
        let hasRoot = (hd p = CHR ''/'');
            r = dropWhile (\<lambda>c. c \<noteq> CHR ''/'') (dropWhile (\<lambda>c. c = CHR ''/'') (rev (tl p)))
        in if r = [] then (if hasRoot then ''/'' else ''.'')
           else if hasRoot \<and> length r = 1 then ''//''
           else take (length r) p)"

section \<open>Platform: the file system\<close>

text \<open>
  The file system is a map from locations to nodes. A location is what a path string
  resolves to: whether it starts at the root, and its non-empty segments other than
  \<^verbatim>\<open>.\<close> (the paths the program builds come out of \<^verbatim>\<open>path.join\<close>, so \<^verbatim>\<open>..\<close> occurs only
  at the front of a relative output directory and is an ordinary name here). The root
  and the working directory always exist. A location marked read-only refuses to be
  created or written: the permission and quota failures of the real calls.
\<close>

datatype errno = ENOENT | ENOTDIR | EISDIR | EEXIST | EACCES

datatype error = TypeError | BrowserError string | HttpError string | FsError errno

datatype node = File string | Dir

type_synonym loc = "bool \<times> string list"

record filesystem =
  nodes :: "loc \<Rightarrow> node option"
  readonly :: "loc \<Rightarrow> bool"

definition loc_of :: "string \<Rightarrow> loc" where
  "loc_of p = (p \<noteq> [] \<and> hd p = CHR ''/'', filter (\<lambda>s. s \<noteq> [] \<and> s \<noteq> ''.'') (split_path p))"

definition trailing_slash :: "string \<Rightarrow> bool" where
  "trailing_slash p = (p \<noteq> [] \<and> last p = CHR ''/'')"

definition node_at :: "filesystem \<Rightarrow> loc \<Rightarrow> node option" where
  "node_at fs l = (if snd l = [] then Some Dir else nodes fs l)"

definition put_node :: "filesystem \<Rightarrow> loc \<Rightarrow> node \<Rightarrow> filesystem" where
  "put_node fs l n = fs\<lparr>nodes := (nodes fs)(l \<mapsto> n)\<rparr>"

definition existsSync :: "filesystem \<Rightarrow> string \<Rightarrow> bool" where
  "existsSync fs p =
     (case node_at fs (loc_of p) of
        None \<Rightarrow> False
      | Some Dir \<Rightarrow> True
      | Some (File d) \<Rightarrow> \<not> trailing_slash p)"

text \<open>\<^verbatim>\<open>fs.mkdirSync(p, { recursive: true })\<close>: every missing directory on the way is created;
  an existing directory is no error, an existing file is.\<close>

fun mkdir_from :: "filesystem \<Rightarrow> bool \<Rightarrow> string list \<Rightarrow> string list \<Rightarrow> error option \<times> filesystem" where
  "mkdir_from fs a pre [] = (None, fs)"
| "mkdir_from fs a pre (s # ss) =
     (case node_at fs (a, pre @ [s]) of
        Some Dir \<Rightarrow> mkdir_from fs a (pre @ [s]) ss
      | Some (File d) \<Rightarrow> (Some (FsError (if ss = [] then EEXIST else ENOTDIR)), fs)
      | None \<Rightarrow>
          if readonly fs (a, pre @ [s]) then (Some (FsError EACCES), fs)
          else mkdir_from (put_node fs (a, pre @ [s]) Dir) a (pre @ [s]) ss)"

definition mkdirSync :: "filesystem \<Rightarrow> string \<Rightarrow> error option \<times> filesystem" where
  "mkdirSync fs p = mkdir_from fs (fst (loc_of p)) [] (snd (loc_of p))"

text \<open>\<^verbatim>\<open>fs.writeFileSync(p, data)\<close>: the parent must be a directory, the target must not be
  one; an existing file is replaced.\<close>

definition writeFileSync :: "filesystem \<Rightarrow> string \<Rightarrow> string \<Rightarrow> error option \<times> filesystem" where
  "writeFileSync fs p dat =
     (let l = loc_of p in
      if trailing_slash p \<or> snd l = [] then (Some (FsError EISDIR), fs)
      else (case node_at fs (fst l, butlast (snd l)) of
              None \<Rightarrow> (Some (FsError ENOENT), fs)
            | Some (File d) \<Rightarrow> (Some (FsError ENOTDIR), fs)
            | Some Dir \<Rightarrow>
                (case node_at fs l of
                   Some Dir \<Rightarrow> (Some (FsError EISDIR), fs)
                 | _ \<Rightarrow> if readonly fs l then (Some (FsError EACCES), fs)
                        else (None, put_node fs l (File dat)))))"

section \<open>The world outside the program\<close>

text \<open>
  What the browser (Puppeteer), the HTTP client (axios) and the HTML parser (cheerio)
  answer is not decided by the program. Each call is a field of the world: a rejected
  promise is an \<open>error\<close>, a resolved one a value. The calls of one mirror job are indexed
  by the job's page URL, so that jobs of one batch can fare differently; a navigation
  and a response body are indexed by the URL navigated to as well.
\<close>

datatype nav = NavError error | NoResponse | Response

record world =
  outputDirectory :: string
  host_parser :: host_parser
  launch :: "string \<Rightarrow> error option"
  newPage :: "string \<Rightarrow> error option"
  page_goto :: "string \<Rightarrow> string \<Rightarrow> nav"
  page_content :: "string \<Rightarrow> error + string"
  page_evaluate :: "string \<Rightarrow> error + string list"
  response_buffer :: "string \<Rightarrow> string \<Rightarrow> error + string"
  browser_close :: "string \<Rightarrow> error option"
  axios_get :: "string \<Rightarrow> error + string"
  cheerio_html :: "string \<Rightarrow> string"
  cheerio_count :: "string \<Rightarrow> string \<Rightarrow> nat"

text \<open>
  The trace of a run: every call to the browser, the HTTP client and the file system in
  the order the program makes it, and every line it prints. A file-system call is
  recorded with its result. \<open>ConsoleError\<close> is \<^verbatim>\<open>console.error\<close>, with the error object
  when one is printed after the message.
\<close>

datatype event =
    Log string
  | LogList string "string list"
  | LogMetadata string nat nat
  | ConsoleError string "error option"
  | Launch
  | NewPage
  | Goto string
  | Content
  | Evaluate
  | Buffer string
  | Close
  | HttpGet string
  | ExistsSync string bool
  | MkdirSync string "error option"
  | WriteFileSync string string "error option"

datatype outcome = Resolved | Rejected error

section \<open>Fetch and parse\<close>

text \<open>
  \<^verbatim>\<open>fetchAndParseURL\<close> (lines 56 to 89). Its promise cannot reject: the validator does not
  throw and everything after it is inside \<^verbatim>\<open>try\<close>. The date in the metadata is left out.
\<close>

definition fetch_failed :: "string \<Rightarrow> error \<Rightarrow> event" where
  "fetch_failed u e = ConsoleError (''An error occurred while fetching '' @ u @ '': '') (Some e)"

text \<open>What follows \<^verbatim>\<open>await axios.get(url)\<close> (lines 65 to 88).\<close>

definition after_get :: "world \<Rightarrow> string \<Rightarrow> bool \<Rightarrow> filesystem \<Rightarrow> filesystem \<times> event list" where
  "after_get E u metadata fs =
     (case axios_get E u of
        Inl e \<Rightarrow> (fs, [fetch_failed u e])
      | Inr dat \<Rightarrow>
          (let t1 = [Log (''Data fetched for URL: '' @ u)]
                     @ (if metadata
                        then [LogMetadata u (cheerio_count E dat ''a'') (cheerio_count E dat ''img'')]
                        else [])
           in case extractDomainName (host_parser E) u of
                None \<Rightarrow> (fs, t1 @ [fetch_failed u TypeError])
              | Some domain \<Rightarrow>
                  (let filename = path_join [outputDirectory E, domain @ ''.html''];
                       html = cheerio_html E dat
                   in case writeFileSync fs filename html of
                        (Some e, fs') \<Rightarrow>
                          (fs', t1 @ [WriteFileSync filename html (Some e), fetch_failed u e])
                      | (None, fs') \<Rightarrow>
                          (fs', t1 @ [WriteFileSync filename html None,
                                      Log (''Content saved: '' @ filename)]))))"

definition fetchAndParseURL ::
    "world \<Rightarrow> string \<Rightarrow> bool \<Rightarrow> filesystem \<Rightarrow> filesystem \<times> event list" where
  "fetchAndParseURL E u metadata fs =
     (if \<not> isValidUrl (host_parser E) u then (fs, [Log (''Invalid URL skipped: '' @ u)])
      else (case after_get E u metadata fs of
              (fs', t) \<Rightarrow> (fs', [Log (''Processing URL: '' @ u), HttpGet u] @ t)))"

section \<open>Mirror\<close>

text \<open>The lines \<^verbatim>\<open>mirror\<close> prints with \<^verbatim>\<open>console.log\<close>.\<close>

definition starting :: "string \<Rightarrow> event" where
  "starting u = Log (''Starting mirroring for URL: '' @ u)"

definition page_loaded :: "string \<Rightarrow> event" where
  "page_loaded u = Log (''Page loaded for mirroring: '' @ u)"

definition directory_created :: "string \<Rightarrow> event" where
  "directory_created dirPath = Log (''Directory created: '' @ dirPath)"

definition main_content_saved :: "string \<Rightarrow> event" where
  "main_content_saved indexPath = Log (''Main content saved: '' @ indexPath)"

definition asset_saved :: "string \<Rightarrow> event" where
  "asset_saved assetPath = Log (''Asset saved: '' @ assetPath)"

definition completed :: "string \<Rightarrow> event" where
  "completed u = Log (''Mirroring completed for URL: '' @ u)"

definition startsWith :: "string \<Rightarrow> string \<Rightarrow> bool" where
  "startsWith s p = prefix p s"

text \<open>Lines 124 to 134: the directory of the page and its \<^verbatim>\<open>index.html\<close>. Any failure
  here is thrown out of \<^verbatim>\<open>mirror\<close>.\<close>

definition dirPath_of :: "world \<Rightarrow> url \<Rightarrow> string" where
  "dirPath_of E urlObj = path_join [outputDirectory E, hostname urlObj]"

definition indexPath_of :: "world \<Rightarrow> url \<Rightarrow> string" where
  "indexPath_of E urlObj = path_join [dirPath_of E urlObj, ''index.html'']"

definition make_dir :: "string \<Rightarrow> filesystem \<Rightarrow> error option \<times> filesystem \<times> event list" where
  "make_dir dirPath fs =
     (if \<not> existsSync fs dirPath
      then (case mkdirSync fs dirPath of
              (Some e, fs') \<Rightarrow> (Some e, fs', [ExistsSync dirPath False, MkdirSync dirPath (Some e)])
            | (None, fs') \<Rightarrow>
                (None, fs', [ExistsSync dirPath False, MkdirSync dirPath None,
                             directory_created dirPath]))
      else (None, fs, [ExistsSync dirPath True]))"

definition save_page ::
    "world \<Rightarrow> url \<Rightarrow> string \<Rightarrow> filesystem \<Rightarrow> error option \<times> filesystem \<times> event list" where
  "save_page E urlObj content fs =
     (case make_dir (dirPath_of E urlObj) fs of
        (Some e, fs1, t1) \<Rightarrow> (Some e, fs1, t1)
      | (None, fs1, t1) \<Rightarrow>
          (case writeFileSync fs1 (indexPath_of E urlObj) content of
             (Some e, fs2) \<Rightarrow>
               (Some e, fs2, t1 @ [WriteFileSync (indexPath_of E urlObj) content (Some e)])
           | (None, fs2) \<Rightarrow>
               (None, fs2, t1 @ [WriteFileSync (indexPath_of E urlObj) content None,
                                 main_content_saved (indexPath_of E urlObj)])))"

text \<open>Lines 161 to 165: what is done with the body of an asset. Failures are thrown,
  into the \<^verbatim>\<open>catch\<close> of the loop.\<close>

definition assetPath_of :: "string \<Rightarrow> url \<Rightarrow> string" where
  "assetPath_of dirPath a = path_join [dirPath, pathname a]"

definition save_asset ::
    "world \<Rightarrow> string \<Rightarrow> string \<Rightarrow> string \<Rightarrow> filesystem \<Rightarrow> error option \<times> filesystem \<times> event list" where
  "save_asset E dirPath assetUrl buffer fs =
     (case new_URL (host_parser E) assetUrl of
        None \<Rightarrow> (Some TypeError, fs, [])
      | Some a \<Rightarrow>
          (case mkdirSync fs (dirname (assetPath_of dirPath a)) of
             (Some e, fs1) \<Rightarrow> (Some e, fs1, [MkdirSync (dirname (assetPath_of dirPath a)) (Some e)])
           | (None, fs1) \<Rightarrow>
               (case writeFileSync fs1 (assetPath_of dirPath a) buffer of
                  (Some e, fs2) \<Rightarrow>
                    (Some e, fs2, [MkdirSync (dirname (assetPath_of dirPath a)) None,
                                   WriteFileSync (assetPath_of dirPath a) buffer (Some e)])
                | (None, fs2) \<Rightarrow>
                    (None, fs2, [MkdirSync (dirname (assetPath_of dirPath a)) None,
                                 WriteFileSync (assetPath_of dirPath a) buffer None,
                                 asset_saved (assetPath_of dirPath a)]))))"

text \<open>One turn of the loop over the assets (lines 153 to 171). It cannot throw.\<close>

definition is_http :: "string \<Rightarrow> bool" where
  "is_http assetUrl = (startsWith assetUrl ''http://'' \<or> startsWith assetUrl ''https://'')"

definition skipped :: "string \<Rightarrow> event" where
  "skipped assetUrl = ConsoleError (''Skipping invalid asset URL: '' @ assetUrl) None"

definition no_response :: "string \<Rightarrow> event" where
  "no_response assetUrl = ConsoleError (''No response received for asset: '' @ assetUrl) None"

definition download_failed :: "string \<Rightarrow> error \<Rightarrow> event" where
  "download_failed assetUrl e = ConsoleError (''Failed to download asset: '' @ assetUrl) (Some e)"

definition mirror_asset ::
    "world \<Rightarrow> string \<Rightarrow> string \<Rightarrow> string \<Rightarrow> filesystem \<Rightarrow> filesystem \<times> event list" where
  "mirror_asset E u dirPath assetUrl fs =
     (if \<not> startsWith assetUrl ''http://'' \<and> \<not> startsWith assetUrl ''https://''
      then (fs, [skipped assetUrl])
      else
        (case page_goto E u assetUrl of
           NavError e \<Rightarrow> (fs, [Goto assetUrl, download_failed assetUrl e])
         | NoResponse \<Rightarrow> (fs, [Goto assetUrl, no_response assetUrl])
         | Response \<Rightarrow>
             (case response_buffer E u assetUrl of
                Inl e \<Rightarrow> (fs, [Goto assetUrl, Buffer assetUrl, download_failed assetUrl e])
              | Inr buffer \<Rightarrow>
                  (case save_asset E dirPath assetUrl buffer fs of
                     (Some e, fs', t) \<Rightarrow>
                       (fs', [Goto assetUrl, Buffer assetUrl] @ t @ [download_failed assetUrl e])
                   | (None, fs', t) \<Rightarrow> (fs', [Goto assetUrl, Buffer assetUrl] @ t)))))"

fun mirror_assets ::
    "world \<Rightarrow> string \<Rightarrow> string \<Rightarrow> string list \<Rightarrow> filesystem \<Rightarrow> filesystem \<times> event list" where
  "mirror_assets E u dirPath [] fs = (fs, [])"
| "mirror_assets E u dirPath (assetUrl # assets) fs =
     (case mirror_asset E u dirPath assetUrl fs of
        (fs1, t1) \<Rightarrow>
          (case mirror_assets E u dirPath assets fs1 of
             (fs2, t2) \<Rightarrow> (fs2, t1 @ t2)))"

text \<open>
  \<^verbatim>\<open>mirror\<close> (lines 112 to 176), run from its start to the settling of its promise with
  no other job writing in between. Outside the loop nothing is caught: the first failure
  rejects the promise, and the statements after it, \<^verbatim>\<open>browser.close()\<close> among them, are
  not executed.
\<close>

definition mirror :: "world \<Rightarrow> string \<Rightarrow> filesystem \<Rightarrow> outcome \<times> filesystem \<times> event list" where
  "mirror E u fs =
     (let t0 = [starting u, Launch] in
      case launch E u of
        Some e \<Rightarrow> (Rejected e, fs, t0)
      | None \<Rightarrow>
     (let t1 = t0 @ [NewPage] in
      case newPage E u of
        Some e \<Rightarrow> (Rejected e, fs, t1)
      | None \<Rightarrow>
     (let t2 = t1 @ [Goto u] in
      case page_goto E u u of
        NavError e \<Rightarrow> (Rejected e, fs, t2)
      | _ \<Rightarrow>
     (let t3 = t2 @ [page_loaded u, Content] in
      case page_content E u of
        Inl e \<Rightarrow> (Rejected e, fs, t3)
      | Inr content \<Rightarrow>
     (case new_URL (host_parser E) u of
        None \<Rightarrow> (Rejected TypeError, fs, t3)
      | Some urlObj \<Rightarrow>
     (case save_page E urlObj content fs of
        (Some e, fs1, tp) \<Rightarrow> (Rejected e, fs1, t3 @ tp)
      | (None, fs1, tp) \<Rightarrow>
     (let t4 = t3 @ tp @ [Evaluate] in
      case page_evaluate E u of
        Inl e \<Rightarrow> (Rejected e, fs1, t4)
      | Inr assets \<Rightarrow>
     (case mirror_assets E u (dirPath_of E urlObj) assets fs1 of
        (fs2, ta) \<Rightarrow>
     (let t5 = t4 @ ta @ [Close] in
      case browser_close E u of
        Some e \<Rightarrow> (Rejected e, fs2, t5)
      | None \<Rightarrow> (Resolved, fs2, t5 @ [completed u]))))))))))"

section \<open>Jobs between their awaits\<close>

text \<open>
  \<^verbatim>\<open>main\<close> starts every job of a phase before it awaits any
  (\<^verbatim>\<open>urls.map(...)\<close>, then \<^verbatim>\<open>Promise.all\<close>), so the jobs take turns: a job runs from one
  \<^verbatim>\<open>await\<close> to the next without interruption, and which job goes on next is not decided
  by the program. A job is therefore also given as the state it waits in and as the step
  from one \<^verbatim>\<open>await\<close> to the next.
\<close>

datatype mirror_job =
    AwaitLaunch
  | AwaitNewPage
  | AwaitGoto
  | AwaitContent
  | AwaitEvaluate string
  | AwaitAssetGoto string string "string list"
  | AwaitBuffer string string "string list"
  | AwaitClose
  | Settled outcome

text \<open>From the head of the loop to the next \<^verbatim>\<open>await\<close>: candidates without the prefix
  are reported and passed over; after the last one comes \<^verbatim>\<open>browser.close()\<close>.\<close>

fun next_asset :: "string \<Rightarrow> string list \<Rightarrow> mirror_job \<times> event list" where
  "next_asset dirPath [] = (AwaitClose, [Close])"
| "next_asset dirPath (assetUrl # assets) =
     (if \<not> startsWith assetUrl ''http://'' \<and> \<not> startsWith assetUrl ''https://''
      then (case next_asset dirPath assets of (j, t) \<Rightarrow> (j, skipped assetUrl # t))
      else (AwaitAssetGoto dirPath assetUrl assets, [Goto assetUrl]))"

definition continue_with ::
    "filesystem \<Rightarrow> event list \<Rightarrow> mirror_job \<times> event list \<Rightarrow> mirror_job \<times> filesystem \<times> event list" where
  "continue_with fs t nxt = (fst nxt, fs, t @ snd nxt)"

definition mirror_start :: "string \<Rightarrow> mirror_job \<times> event list" where
  "mirror_start u = (AwaitLaunch, [starting u, Launch])"

fun mirror_resume ::
    "world \<Rightarrow> string \<Rightarrow> mirror_job \<Rightarrow> filesystem \<Rightarrow> mirror_job \<times> filesystem \<times> event list" where
  "mirror_resume E u AwaitLaunch fs =
     (case launch E u of
        Some e \<Rightarrow> (Settled (Rejected e), fs, [])
      | None \<Rightarrow> (AwaitNewPage, fs, [NewPage]))"
| "mirror_resume E u AwaitNewPage fs =
     (case newPage E u of
        Some e \<Rightarrow> (Settled (Rejected e), fs, [])
      | None \<Rightarrow> (AwaitGoto, fs, [Goto u]))"
| "mirror_resume E u AwaitGoto fs =
     (case page_goto E u u of
        NavError e \<Rightarrow> (Settled (Rejected e), fs, [])
      | _ \<Rightarrow> (AwaitContent, fs, [page_loaded u, Content]))"
| "mirror_resume E u AwaitContent fs =
     (case page_content E u of
        Inl e \<Rightarrow> (Settled (Rejected e), fs, [])
      | Inr content \<Rightarrow>
          (case new_URL (host_parser E) u of
             None \<Rightarrow> (Settled (Rejected TypeError), fs, [])
           | Some urlObj \<Rightarrow>
               (case save_page E urlObj content fs of
                  (Some e, fs1, tp) \<Rightarrow> (Settled (Rejected e), fs1, tp)
                | (None, fs1, tp) \<Rightarrow> (AwaitEvaluate (dirPath_of E urlObj), fs1, tp @ [Evaluate]))))"
| "mirror_resume E u (AwaitEvaluate dirPath) fs =
     (case page_evaluate E u of
        Inl e \<Rightarrow> (Settled (Rejected e), fs, [])
      | Inr assets \<Rightarrow> continue_with fs [] (next_asset dirPath assets))"
| "mirror_resume E u (AwaitAssetGoto dirPath assetUrl assets) fs =
     (case page_goto E u assetUrl of
        NavError e \<Rightarrow> continue_with fs [download_failed assetUrl e] (next_asset dirPath assets)
      | NoResponse \<Rightarrow> continue_with fs [no_response assetUrl] (next_asset dirPath assets)
      | Response \<Rightarrow> (AwaitBuffer dirPath assetUrl assets, fs, [Buffer assetUrl]))"
| "mirror_resume E u (AwaitBuffer dirPath assetUrl assets) fs =
     (case response_buffer E u assetUrl of
        Inl e \<Rightarrow> continue_with fs [download_failed assetUrl e] (next_asset dirPath assets)
      | Inr buffer \<Rightarrow>
          (case save_asset E dirPath assetUrl buffer fs of
             (Some e, fs', t) \<Rightarrow>
               continue_with fs' (t @ [download_failed assetUrl e]) (next_asset dirPath assets)
           | (None, fs', t) \<Rightarrow> continue_with fs' t (next_asset dirPath assets)))"
| "mirror_resume E u AwaitClose fs =
     (case browser_close E u of
        Some e \<Rightarrow> (Settled (Rejected e), fs, [])
      | None \<Rightarrow> (Settled Resolved, fs, [completed u]))"
| "mirror_resume E u (Settled r) fs = (Settled r, fs, [])"

datatype fetch_job = AwaitGet | FetchDone

definition fetch_start :: "world \<Rightarrow> string \<Rightarrow> fetch_job \<times> event list" where
  "fetch_start E u =
     (if \<not> isValidUrl (host_parser E) u then (FetchDone, [Log (''Invalid URL skipped: '' @ u)])
      else (AwaitGet, [Log (''Processing URL: '' @ u), HttpGet u]))"

fun fetch_resume ::
    "world \<Rightarrow> string \<Rightarrow> bool \<Rightarrow> fetch_job \<Rightarrow> filesystem \<Rightarrow> fetch_job \<times> filesystem \<times> event list" where
  "fetch_resume E u metadata AwaitGet fs =
     (case after_get E u metadata fs of (fs', t) \<Rightarrow> (FetchDone, fs', t))"
| "fetch_resume E u metadata FetchDone fs = (FetchDone, fs, [])"

section \<open>The batch\<close>

text \<open>
  A schedule is the order in which the awaited promises of the jobs settle: the list of
  the indices of the jobs that go on, one step each. An index out of range, or of a job
  that has finished, changes nothing. Events are recorded with who caused them.
\<close>

datatype actor = MainFn | FetchJob nat | MirrorJob nat

type_synonym 'j batch = "'j list \<times> filesystem \<times> (actor \<times> event) list"

fun run_sched ::
    "(nat \<Rightarrow> 'j \<Rightarrow> filesystem \<Rightarrow> 'j \<times> filesystem \<times> event list) \<Rightarrow> (nat \<Rightarrow> actor) \<Rightarrow>
     nat list \<Rightarrow> 'j batch \<Rightarrow> 'j batch" where
  "run_sched step who [] b = b"
| "run_sched step who (i # sched) (js, fs, t) =
     (if i < length js
      then (case step i (js ! i) fs of
              (j', fs', ev) \<Rightarrow>
                run_sched step who sched (js[i := j'], fs', t @ map (Pair (who i)) ev))
      else run_sched step who sched (js, fs, t))"

definition start_all :: "(nat \<Rightarrow> actor) \<Rightarrow> ('j \<times> event list) list \<Rightarrow> (actor \<times> event) list" where
  "start_all who starts =
     concat (map (\<lambda>(i, s). map (Pair (who i)) (snd s)) (zip [0..<length starts] starts))"

definition is_rejected :: "mirror_job \<Rightarrow> bool" where
  "is_rejected j = (case j of Settled (Rejected e) \<Rightarrow> True | _ \<Rightarrow> False)"

definition is_resolved :: "mirror_job \<Rightarrow> bool" where
  "is_resolved j = (case j of Settled Resolved \<Rightarrow> True | _ \<Rightarrow> False)"

text \<open>
  The promise of \<^verbatim>\<open>main\<close>: still pending (\<open>Running\<close>), fulfilled (\<open>Completed\<close>) or rejected
  (\<open>Failed\<close>). \<^verbatim>\<open>Promise.all\<close> rejects as soon as one of its promises does and is fulfilled
  when all are; the other jobs are not cancelled. \<^verbatim>\<open>main()\<close> is called without a handler,
  so what becomes of a rejection is up to the runtime and outside the model.
\<close>

datatype batch_state = Running | Completed | Failed

definition fetch_phase ::
    "world \<Rightarrow> bool \<Rightarrow> string list \<Rightarrow> nat list \<Rightarrow> filesystem \<Rightarrow> fetch_job batch" where
  "fetch_phase E metadata urls sched fs =
     run_sched (\<lambda>i. fetch_resume E (urls ! i) metadata) FetchJob sched
       (map (\<lambda>u. fst (fetch_start E u)) urls, fs,
        start_all FetchJob (map (fetch_start E) urls))"

definition mirror_phase ::
    "world \<Rightarrow> string list \<Rightarrow> nat list \<Rightarrow> filesystem \<Rightarrow> batch_state \<times> filesystem \<times> (actor \<times> event) list" where
  "mirror_phase E urls sched fs =
     (case run_sched (\<lambda>i. mirror_resume E (urls ! i)) MirrorJob sched
             (map (\<lambda>u. fst (mirror_start u)) urls, fs,
              (MainFn, Log ''Starting mirroring process...'')
                # start_all MirrorJob (map mirror_start urls)) of
        (js, fs', t) \<Rightarrow>
          if list_ex is_rejected js then (Failed, fs', t)
          else if list_all is_resolved js
          then (Completed, fs', t @ [(MainFn, Log ''Mirroring process completed.'')])
          else (Running, fs', t))"

text \<open>\<^verbatim>\<open>main\<close> (lines 181 to 194), under a schedule for each of its two phases.\<close>

definition main ::
    "world \<Rightarrow> bool \<Rightarrow> bool \<Rightarrow> string list \<Rightarrow> nat list \<Rightarrow> nat list \<Rightarrow> filesystem \<Rightarrow>
     batch_state \<times> filesystem \<times> (actor \<times> event) list" where
  "main E metadata mirrorFlag urls sched1 sched2 fs =
     (case fetch_phase E metadata urls sched1 fs of
        (js, fs1, t1) \<Rightarrow>
          (let t = (MainFn, LogList ''Starting processing with URLs:'' urls) # t1 in
           if \<not> list_all (\<lambda>j. j = FetchDone) js then (Running, fs1, t)
           else if \<not> mirrorFlag then (Completed, fs1, t)
           else (case mirror_phase E urls sched2 fs1 of
                   (st, fs2, t2) \<Rightarrow> (st, fs2, t @ t2))))"

section \<open>What a trace says about the files\<close>


definition is_file :: "filesystem \<Rightarrow> loc \<Rightarrow> bool" where
  "is_file fs l = (case node_at fs l of Some (File d) \<Rightarrow> True | _ \<Rightarrow> False)"


definition is_report :: "event \<Rightarrow> bool" where
  "is_report ev = (case ev of ConsoleError m e \<Rightarrow> True | _ \<Rightarrow> False)"

definition is_saved :: "event \<Rightarrow> bool" where
  "is_saved ev = (case ev of Log m \<Rightarrow> startsWith m ''Asset saved: '' | _ \<Rightarrow> False)"

definition gotos :: "event list \<Rightarrow> string list" where
  "gotos t = concat (map (\<lambda>ev. case ev of Goto a \<Rightarrow> [a] | _ \<Rightarrow> []) t)"



definition silent :: "event \<Rightarrow> bool" where
  "silent ev = (case ev of WriteFileSync p d r \<Rightarrow> False | MkdirSync p r \<Rightarrow> False | _ \<Rightarrow> True)"

text \<open>Every call of the job for \<open>u\<close> to its browser succeeds, the navigations to assets
  apart.\<close>

definition browser_ok :: "world \<Rightarrow> string \<Rightarrow> bool" where
  "browser_ok E u =
     (launch E u = None \<and> newPage E u = None
      \<and> (case page_goto E u u of NavError e \<Rightarrow> False | _ \<Rightarrow> True)
      \<and> (case page_content E u of Inl e \<Rightarrow> False | Inr c \<Rightarrow> True)
      \<and> (case page_evaluate E u of Inl e \<Rightarrow> False | Inr assets \<Rightarrow> True)
      \<and> browser_close E u = None)"

definition page_trace :: "string \<Rightarrow> event list" where
  "page_trace u =
     [starting u, Launch, NewPage, Goto u,
      page_loaded u, Content]"

definition closing_trace :: "string \<Rightarrow> event list" where
  "closing_trace u = [Close, completed u]"




text \<open>Where a job is while it has not saved its page: before the navigation to the page
  has settled, or before the page content has arrived.\<close>

definition before_goto :: "mirror_job \<Rightarrow> bool" where
  "before_goto j = (j = AwaitLaunch \<or> j = AwaitNewPage \<or> j = AwaitGoto \<or> is_rejected j)"

definition before_content :: "mirror_job \<Rightarrow> bool" where
  "before_content j = (before_goto j \<or> j = AwaitContent)"

text \<open>A path segment that names a file or directory of its own: it holds no slash and is
  neither of the dot segments. The empty segment is allowed.\<close>

definition plain_segment :: "string \<Rightarrow> bool" where
  "plain_segment s = (CHR ''/'' \<notin> set s \<and> s \<noteq> ''.'' \<and> s \<noteq> ''..'')"

section \<open>Example worlds\<close>

text \<open>
  A world in which every call succeeds and pages have no assets, over an empty file
  system; the scenarios of the specification are variations of it.
\<close>

definition base_world :: world where
  "base_world =
     \<lparr>outputDirectory = ''outputRoot'', host_parser = letters_host,
      launch = (\<lambda>u. None), newPage = (\<lambda>u. None),
      page_goto = (\<lambda>u a. Response),
      page_content = (\<lambda>u. Inr (''<html>'' @ u)),
      page_evaluate = (\<lambda>u. Inr []),
      response_buffer = (\<lambda>u a. Inr (''body of '' @ a)),
      browser_close = (\<lambda>u. None),
      axios_get = (\<lambda>u. Inr ''<html>''), cheerio_html = (\<lambda>d. d), cheerio_count = (\<lambda>d s. 0)\<rparr>"

definition empty_fs :: filesystem where
  "empty_fs = \<lparr>nodes = (\<lambda>l. None), readonly = (\<lambda>l. False)\<rparr>"

text \<open>Two visits of \<^verbatim>\<open>https://example.com\<close>: at the second the page has changed and no
  longer refers to its style sheet.\<close>

definition first_visit :: world where
  "first_visit =
     base_world\<lparr>page_evaluate :=
       (\<lambda>u. Inr [''https://example.com/logo.png'', ''https://example.com/old.css''])\<rparr>"



text \<open>A batch of three pages; the second does not load. And a file system in which the
  output root is a file, so that no directory can be made under it.\<close>

definition second_fails :: world where
  "second_fails =
     base_world\<lparr>page_goto := (\<lambda>u a. if a = ''https://two.example''
                                       then NavError (BrowserError ''net::ERR_NAME_NOT_RESOLVED'')
                                       else Response)\<rparr>"

definition three_urls :: "string list" where
  "three_urls = [''https://one.example'', ''https://two.example'', ''https://three.example'']"

definition blocked_fs :: filesystem where
  "blocked_fs = put_node empty_fs (False, [''outputRoot'']) (File ''not a directory'')"

text \<open>A browser that refuses to navigate to a string that is no URL, as Chromium does.\<close>

definition strict_browser :: world where
  "strict_browser =
     base_world\<lparr>page_goto :=
       (\<lambda>u a. if isValidUrl letters_host a then Response
              else NavError (BrowserError ''Cannot navigate to invalid URL''))\<rparr>"

text \<open>A schedule that lets three jobs take turns six times each.\<close>

definition round_robin :: "nat list" where
  "round_robin = concat (replicate 6 [0, 1, 2])"

section \<open>The URL validator: results\<close>








section \<open>The asset loop: which candidates are fetched\<close>

lemma gotos_append: "gotos (t1 @ t2) = gotos t1 @ gotos t2"
  by (simp add: gotos_def)

lemma gotos_save_asset: "gotos (snd (snd (save_asset E d a b fs))) = []"
  by (auto simp: save_asset_def gotos_def asset_saved_def split: option.splits prod.splits)

lemma gotos_Cons: "gotos (ev # t) = (case ev of Goto a \<Rightarrow> [a] | _ \<Rightarrow> []) @ gotos t"
  by (simp add: gotos_def)

lemma gotos_mirror_asset:
  "gotos (snd (mirror_asset E u d a fs)) = (if is_http a then [a] else [])"
proof (cases "is_http a")
  case False
  then show ?thesis
    by (simp add: mirror_asset_def is_http_def gotos_def skipped_def)
next
  case True
  have saved: "gotos t = []" if "save_asset E d a b fs = (r, fs', t)" for b r fs' t
    using gotos_save_asset[of E d a b fs] that by simp
  have nil: "gotos [] = []" by (simp add: gotos_def)
  show ?thesis
    using True
    by (auto simp: mirror_asset_def is_http_def gotos_append gotos_Cons nil
                   download_failed_def no_response_def
             split: nav.splits sum.splits prod.splits option.splits dest: saved)
qed

lemma gotos_mirror_assets:
  "gotos (snd (mirror_assets E u d assets fs)) = filter is_http assets"
proof (induction assets arbitrary: fs)
  case Nil
  then show ?case by (simp add: gotos_def)
next
  case (Cons a assets)
  obtain fs1 t1 where a: "mirror_asset E u d a fs = (fs1, t1)"
    by (cases "mirror_asset E u d a fs")
  obtain fs2 t2 where r: "mirror_assets E u d assets fs1 = (fs2, t2)"
    by (cases "mirror_assets E u d assets fs1")
  from gotos_mirror_asset[of E u d a fs] a have "gotos t1 = (if is_http a then [a] else [])"
    by simp
  moreover from Cons.IH[of fs1] r have "gotos t2 = filter is_http assets" by simp
  ultimately show ?case using a r by (simp add: gotos_append)
qed

lemma goto_in_turn: "(Goto a \<in> set (snd (mirror_asset E u d a fs))) = is_http a"
proof -
  have "Goto a \<in> set t \<longleftrightarrow> a \<in> set (gotos t)" for t
    by (induction t) (auto simp: gotos_def split: event.splits)
  then show ?thesis by (simp add: gotos_mirror_asset)
qed

lemma skipped_turn: "\<not> is_http a \<Longrightarrow> mirror_asset E u d a fs = (fs, [skipped a])"
  by (simp add: mirror_asset_def is_http_def)

lemma not_http_examples:
  "\<not> is_http ''data:image/png;base64,iVBORw0KGgo=''" "\<not> is_http ''/relative.js''"
  "\<not> is_http ''HTTPS://example.com/a.js''"
  by code_simp+

text \<open>
  C5: a candidate is navigated to if and only if it starts with \<^verbatim>\<open>http://\<close> or
  \<^verbatim>\<open>https://\<close>, exactly as written. Any other candidate gets an error line and nothing
  else: no call to the browser or the file system, the file system unchanged. The loop
  then goes on, so its navigations are the candidates with the prefix, in their order. A
  \<^verbatim>\<open>data:\<close> URL, a relative path and an upper-case scheme are not fetched.
\<close>

theorem asset_fetched_iff_http_prefix:
  "is_http a = (prefix ''http://'' a \<or> prefix ''https://'' a)
   \<and> (Goto a \<in> set (snd (mirror_asset E u d a fs))) = is_http a
   \<and> (\<not> is_http a \<longrightarrow> mirror_asset E u d a fs = (fs, [skipped a]))
   \<and> gotos (snd (mirror_assets E u d assets fs)) = filter is_http assets
   \<and> \<not> is_http ''data:image/png;base64,iVBORw0KGgo='' \<and> \<not> is_http ''/relative.js''
   \<and> \<not> is_http ''HTTPS://example.com/a.js''"
  using goto_in_turn[of a E u d fs] skipped_turn[of a E u d fs]
    gotos_mirror_assets[of E u d assets fs] not_http_examples
  by (simp add: is_http_def startsWith_def)

theorem asset_fetched_iff_http_prefix_witness:
  "mirror_asset base_world ''https://example.com'' ''outputRoot/example.com'' ''/relative.js'' empty_fs
     = (empty_fs, [skipped ''/relative.js''])
   \<and> gotos (snd (mirror_assets base_world ''https://example.com'' ''outputRoot/example.com''
         [''https://example.com/logo.png'', ''/relative.js'', ''https://example.com/app.js''] empty_fs))
     = [''https://example.com/logo.png'', ''https://example.com/app.js'']"
proof -
  have n: "\<not> is_http ''/relative.js''" by code_simp
  have "filter is_http [''https://example.com/logo.png'', ''/relative.js'', ''https://example.com/app.js'']
      = [''https://example.com/logo.png'', ''https://example.com/app.js'']"
    by code_simp
  with n asset_fetched_iff_http_prefix[of "''/relative.js''" base_world "''https://example.com''"
      "''outputRoot/example.com''" empty_fs
      "[''https://example.com/logo.png'', ''/relative.js'', ''https://example.com/app.js'']"]
  show ?thesis by simp
qed

section \<open>The file system: what the calls keep\<close>



lemma node_at_put_node:
  "node_at (put_node fs l n) l' = (if snd l' = [] then Some Dir else if l' = l then Some n else node_at fs l')"
  by (simp add: node_at_def put_node_def)




lemma mkdir_from_nowrite:
  "mkdir_from fs a pre segs = (r, fs') \<Longrightarrow> node_at fs' l = Some (File d) \<Longrightarrow> node_at fs l = Some (File d)"
proof (induction segs arbitrary: fs pre)
  case Nil
  then show ?case by simp
next
  case (Cons s segs)
  then show ?case
    by (fastforce split: option.splits node.splits if_splits simp: node_at_put_node)
qed

































lemma silent_simps [simp]:
  "silent (Log m)" "silent (ConsoleError m e)" "silent (ExistsSync p b)" "silent (Goto a)"
  "silent (Buffer a)" "silent Evaluate" "silent Close" "silent Launch" "silent NewPage"
  "silent Content" "silent (HttpGet a)" "silent (LogMetadata a n k)" "silent (LogList m xs)"
  "silent (skipped a)" "silent (no_response a)" "silent (download_failed a e')" "silent (fetch_failed a e')"
  "silent (starting a)" "silent (page_loaded a)" "silent (directory_created p)"
  "silent (main_content_saved p)" "silent (asset_saved p)" "silent (completed a)"
  "\<not> silent (WriteFileSync p d r)" "\<not> silent (MkdirSync p r)"
  by (simp_all add: silent_def skipped_def no_response_def download_failed_def fetch_failed_def
        starting_def page_loaded_def directory_created_def main_content_saved_def asset_saved_def
        completed_def)







section \<open>Mirroring again\<close>




lemma mirror_resolves:
  assumes "browser_ok E u" "new_URL (host_parser E) u = Some uo" "page_content E u = Inr c"
    "page_evaluate E u = Inr assets" "save_page E uo c fs = (None, fs1, tp)"
  shows "mirror E u fs =
     (Resolved, fst (mirror_assets E u (dirPath_of E uo) assets fs1),
      page_trace u @ tp @ [Evaluate] @ snd (mirror_assets E u (dirPath_of E uo) assets fs1)
        @ closing_trace u)"
proof -
  from assms(1) have b: "launch E u = None" "newPage E u = None" "browser_close E u = None"
    and g: "page_goto E u u = NoResponse \<or> page_goto E u u = Response"
    by (auto simp: browser_ok_def split: nav.splits)
  obtain fs2 ta where a: "mirror_assets E u (dirPath_of E uo) assets fs1 = (fs2, ta)"
    by (cases "mirror_assets E u (dirPath_of E uo) assets fs1")
  from g show ?thesis
    by (auto simp: mirror_def b a assms(2-5) page_trace_def closing_trace_def)
qed

lemma mirror_resolved_only_if:
  assumes "fst (mirror E u fs) = Resolved"
  shows "browser_ok E u \<and> (\<exists>uo c assets fs1 tp. new_URL (host_parser E) u = Some uo
      \<and> page_content E u = Inr c \<and> page_evaluate E u = Inr assets
      \<and> save_page E uo c fs = (None, fs1, tp))"
proof -
  have l: "launch E u = None"
    using assms by (cases "launch E u") (simp_all add: mirror_def)
  have n: "newPage E u = None"
    using assms l by (cases "newPage E u") (simp_all add: mirror_def)
  have g: "\<forall>e. page_goto E u u \<noteq> NavError e"
    using assms l n by (cases "page_goto E u u") (simp_all add: mirror_def)
  then have g': "(case page_goto E u u of NavError e \<Rightarrow> X e | NoResponse \<Rightarrow> Y | Response \<Rightarrow> Y) = Y" for X Y
    by (cases "page_goto E u u") simp_all
  obtain c where c: "page_content E u = Inr c"
    using assms l n by (cases "page_content E u") (simp_all add: mirror_def g')
  obtain uo where uo: "new_URL (host_parser E) u = Some uo"
    using assms l n c by (cases "new_URL (host_parser E) u") (simp_all add: mirror_def g')
  obtain r fs1 tp where s: "save_page E uo c fs = (r, fs1, tp)"
    by (cases "save_page E uo c fs")
  have r: "r = None"
    using assms l n c uo s by (cases r) (simp_all add: mirror_def g')
  obtain assets where a: "page_evaluate E u = Inr assets"
    using assms l n c uo s r by (cases "page_evaluate E u") (simp_all add: mirror_def g')
  have cl: "browser_close E u = None"
    using assms l n c uo s r a
    by (cases "browser_close E u")
       (simp_all add: mirror_def g' split: prod.splits)
  from l n g c a cl have "browser_ok E u"
    by (auto simp: browser_ok_def split: nav.splits)
  with c uo s r a show ?thesis by blast
qed



lemma node_at_is_file: "node_at fs l = Some (File d) \<Longrightarrow> is_file fs l"
  by (simp add: is_file_def)












section \<open>Asset failures\<close>

lemma is_saved_simps [simp]:
  "is_saved (asset_saved p)" "\<not> is_saved (ConsoleError m e)"
  "\<not> is_saved (MkdirSync p r)" "\<not> is_saved (WriteFileSync p d r)" "\<not> is_saved (Goto a)"
  "\<not> is_saved (Buffer a)" "\<not> is_saved (ExistsSync p b)" "\<not> is_saved Evaluate" "\<not> is_saved Close"
  "\<not> is_saved Launch" "\<not> is_saved NewPage" "\<not> is_saved Content"
  "\<not> is_saved (starting a)" "\<not> is_saved (page_loaded a)" "\<not> is_saved (directory_created p)"
  "\<not> is_saved (main_content_saved p)" "\<not> is_saved (completed a)"
  "\<not> is_saved (skipped a)" "\<not> is_saved (no_response a)" "\<not> is_saved (download_failed a e')"
  by (simp_all add: is_saved_def startsWith_def asset_saved_def starting_def page_loaded_def
        directory_created_def main_content_saved_def completed_def skipped_def no_response_def
        download_failed_def)

lemma is_report_simps [simp]:
  "is_report (ConsoleError m e)" "\<not> is_report (Log m)"
  "\<not> is_report (MkdirSync p r)" "\<not> is_report (WriteFileSync p d r)" "\<not> is_report (Goto a)"
  "\<not> is_report (Buffer a)" "\<not> is_report (ExistsSync p b)" "\<not> is_report Evaluate" "\<not> is_report Close"
  "\<not> is_report Launch" "\<not> is_report NewPage" "\<not> is_report Content"
  "\<not> is_report (starting a)" "\<not> is_report (page_loaded a)" "\<not> is_report (directory_created p)"
  "\<not> is_report (main_content_saved p)" "\<not> is_report (completed a)" "\<not> is_report (asset_saved p)"
  "is_report (skipped a)" "is_report (no_response a)" "is_report (download_failed a e')"
  by (simp_all add: is_report_def asset_saved_def starting_def page_loaded_def
        directory_created_def main_content_saved_def completed_def skipped_def no_response_def
        download_failed_def)












section \<open>The order of the asset turns\<close>

lemma mirror_assets_append:
  "mirror_assets E u d (xs @ ys) fs =
     (fst (mirror_assets E u d ys (fst (mirror_assets E u d xs fs))),
      snd (mirror_assets E u d xs fs) @ snd (mirror_assets E u d ys (fst (mirror_assets E u d xs fs))))"
proof (induction xs arbitrary: fs)
  case Nil
  then show ?case by simp
next
  case (Cons x xs)
  obtain fs1 t1 where a: "mirror_asset E u d x fs = (fs1, t1)"
    by (cases "mirror_asset E u d x fs")
  show ?case by (simp add: a Cons.IH[of fs1] split: prod.splits)
qed

lemma mirror_assets_turn:
  "snd (mirror_assets E u d (xs @ a # ys) fs) =
     snd (mirror_assets E u d xs fs)
     @ snd (mirror_asset E u d a (fst (mirror_assets E u d xs fs)))
     @ snd (mirror_assets E u d ys (fst (mirror_asset E u d a (fst (mirror_assets E u d xs fs)))))"
  by (simp add: mirror_assets_append[of E u d xs "a # ys"] split: prod.splits)

lemma gotos_page:
  "save_page E uo c fs = (r, fs', tp) \<Longrightarrow> gotos (page_trace u @ tp) = [u]"
  by (auto simp: save_page_def make_dir_def gotos_def page_trace_def starting_def page_loaded_def
        directory_created_def main_content_saved_def
           split: option.splits prod.splits if_splits)

text \<open>
  C10: in a job whose page renders, the trace is the part of the page, then the
  evaluation that discovers the assets, then the turns of the assets one after the other
  in the order of discovery, then the closing part. \<^verbatim>\<open>index.html\<close> is written in the part
  of the page, whose only navigation is the one to the page; the navigations of the loop
  are those to the assets with the prefix, in their order. The turn of an asset starts in
  the file system that the turns before it have left and is over before the turn of the
  next one starts, so two turns never overlap.
\<close>

theorem asset_turns_in_order:
  assumes "browser_ok E u" and "new_URL (host_parser E) u = Some uo"
    and "page_content E u = Inr c" and "page_evaluate E u = Inr assets"
    and "save_page E uo c fs = (None, fs1, tp)"
  shows "snd (snd (mirror E u fs)) =
           page_trace u @ tp @ [Evaluate] @ snd (mirror_assets E u (dirPath_of E uo) assets fs1)
             @ closing_trace u
    \<and> WriteFileSync (indexPath_of E uo) c None \<in> set tp \<and> gotos (page_trace u @ tp) = [u]
    \<and> gotos (snd (mirror_assets E u (dirPath_of E uo) assets fs1)) = filter is_http assets
    \<and> (\<forall>xs a ys. assets = xs @ a # ys \<longrightarrow>
          snd (mirror_assets E u (dirPath_of E uo) assets fs1) =
            snd (mirror_assets E u (dirPath_of E uo) xs fs1)
            @ snd (mirror_asset E u (dirPath_of E uo) a
                    (fst (mirror_assets E u (dirPath_of E uo) xs fs1)))
            @ snd (mirror_assets E u (dirPath_of E uo) ys
                    (fst (mirror_asset E u (dirPath_of E uo) a
                      (fst (mirror_assets E u (dirPath_of E uo) xs fs1))))))"
proof -
  have w: "WriteFileSync (indexPath_of E uo) c None \<in> set tp"
    using assms(5) by (auto simp: save_page_def split: prod.splits option.splits)
  from mirror_resolves[OF assms] w gotos_page[OF assms(5), of u]
    gotos_mirror_assets[of E u "dirPath_of E uo" assets fs1]
    mirror_assets_turn[of E u "dirPath_of E uo" _ _ _ fs1]
  show ?thesis by simp
qed


theorem asset_turns_in_order_witness:
  "gotos (snd (snd (mirror first_visit ''https://example.com'' empty_fs)))
     = [''https://example.com'', ''https://example.com/logo.png'', ''https://example.com/old.css'']
   \<and> snd (snd (mirror first_visit ''https://example.com'' empty_fs)) =
       page_trace ''https://example.com''
       @ [ExistsSync ''outputRoot/example.com'' False, MkdirSync ''outputRoot/example.com'' None,
          directory_created ''outputRoot/example.com'',
          WriteFileSync ''outputRoot/example.com/index.html'' ''<html>https://example.com'' None,
          main_content_saved ''outputRoot/example.com/index.html'', Evaluate,
          Goto ''https://example.com/logo.png'', Buffer ''https://example.com/logo.png'',
          MkdirSync ''outputRoot/example.com'' None,
          WriteFileSync ''outputRoot/example.com/logo.png'' ''body of https://example.com/logo.png'' None,
          asset_saved ''outputRoot/example.com/logo.png'',
          Goto ''https://example.com/old.css'', Buffer ''https://example.com/old.css'',
          MkdirSync ''outputRoot/example.com'' None,
          WriteFileSync ''outputRoot/example.com/old.css'' ''body of https://example.com/old.css'' None,
          asset_saved ''outputRoot/example.com/old.css'']
       @ closing_trace ''https://example.com''"
proof -
  let ?u = "''https://example.com''"
  let ?uo = "\<lparr>scheme = ''https'', host = Some ''example.com'', port = None, path = Segments [[]]\<rparr>"
  let ?c = "''<html>https://example.com''"
  let ?sp = "save_page first_visit ?uo ?c empty_fs"
  have ok: "browser_ok first_visit ?u" by code_simp
  have uo: "new_URL (host_parser first_visit) ?u = Some ?uo" by code_simp
  have c: "page_content first_visit ?u = Inr ?c" by code_simp
  have a: "page_evaluate first_visit ?u
      = Inr [''https://example.com/logo.png'', ''https://example.com/old.css'']"
    by code_simp
  have "fst ?sp = None" by code_simp
  then have s: "?sp = (None, fst (snd ?sp), snd (snd ?sp))"
    by (metis prod.collapse)
  note th = asset_turns_in_order[OF ok uo c a s]
  have tp: "snd (snd ?sp) = [ExistsSync ''outputRoot/example.com'' False,
          MkdirSync ''outputRoot/example.com'' None, directory_created ''outputRoot/example.com'',
          WriteFileSync ''outputRoot/example.com/index.html'' ?c None,
          main_content_saved ''outputRoot/example.com/index.html'']"
    by code_simp
  have ta: "snd (mirror_assets first_visit ?u (dirPath_of first_visit ?uo)
               [''https://example.com/logo.png'', ''https://example.com/old.css''] (fst (snd ?sp)))
      = [Goto ''https://example.com/logo.png'', Buffer ''https://example.com/logo.png'',
          MkdirSync ''outputRoot/example.com'' None,
          WriteFileSync ''outputRoot/example.com/logo.png'' ''body of https://example.com/logo.png'' None,
          asset_saved ''outputRoot/example.com/logo.png'',
          Goto ''https://example.com/old.css'', Buffer ''https://example.com/old.css'',
          MkdirSync ''outputRoot/example.com'' None,
          WriteFileSync ''outputRoot/example.com/old.css'' ''body of https://example.com/old.css'' None,
          asset_saved ''outputRoot/example.com/old.css'']"
    by code_simp
  have g: "gotos (snd (snd (mirror first_visit ?u empty_fs)))
     = [?u, ''https://example.com/logo.png'', ''https://example.com/old.css'']"
    by code_simp
  from th have "snd (snd (mirror first_visit ?u empty_fs)) =
      page_trace ?u @ snd (snd ?sp) @ [Evaluate]
      @ snd (mirror_assets first_visit ?u (dirPath_of first_visit ?uo)
               [''https://example.com/logo.png'', ''https://example.com/old.css''] (fst (snd ?sp)))
      @ closing_trace ?u"
    by blast
  with g show ?thesis unfolding tp ta by simp
qed

section \<open>The browser of a job that fails\<close>

text \<open>
  C8 is not what the code does: \<^verbatim>\<open>browser.close()\<close> is the last statement of \<^verbatim>\<open>mirror\<close>
  and stands in no \<^verbatim>\<open>finally\<close>. A job whose page does not load, and a job that cannot make
  the directory of its page, are rejected after they have launched their browser and
  without closing it.
\<close>

theorem browser_left_open_on_failure:
  "fst (mirror second_fails ''https://two.example'' empty_fs)
     = Rejected (BrowserError ''net::ERR_NAME_NOT_RESOLVED'')
   \<and> snd (snd (mirror second_fails ''https://two.example'' empty_fs))
     = [starting ''https://two.example'', Launch, NewPage, Goto ''https://two.example'']
   \<and> fst (mirror base_world ''https://example.com'' blocked_fs) = Rejected (FsError ENOTDIR)
   \<and> snd (snd (mirror base_world ''https://example.com'' blocked_fs))
     = page_trace ''https://example.com''
       @ [ExistsSync ''outputRoot/example.com'' False,
          MkdirSync ''outputRoot/example.com'' (Some (FsError ENOTDIR))]
   \<and> Close \<notin> set (snd (snd (mirror second_fails ''https://two.example'' empty_fs)))
   \<and> Close \<notin> set (snd (snd (mirror base_world ''https://example.com'' blocked_fs)))"
  by code_simp

section \<open>The batch: one browser for each job\<close>

lemma run_sched_length:
  "length (fst (run_sched step who sched (js, fs, t))) = length js"
proof (induction sched arbitrary: js fs t)
  case Nil
  then show ?case by simp
next
  case (Cons i sched)
  then show ?case by (auto split: prod.splits)
qed

text \<open>A property of single jobs that every step keeps is kept by every schedule.\<close>

lemma run_sched_keeps:
  assumes step: "\<And>i j fs. i < n \<Longrightarrow> P i j \<Longrightarrow> P i (fst (step i j fs))"
    and "length js = n" and "\<forall>i<n. P i (js ! i)"
  shows "\<forall>i<n. P i (fst (run_sched step who sched (js, fs, t)) ! i)"
  using assms(2,3)
proof (induction sched arbitrary: js fs t)
  case Nil
  then show ?case by simp
next
  case (Cons k sched)
  show ?case
  proof (cases "k < length js")
    case False
    with Cons show ?thesis by simp
  next
    case True
    obtain j' fs' ev where s: "step k (js ! k) fs = (j', fs', ev)"
      by (cases "step k (js ! k) fs")
    from Cons.prems True step[of k "js ! k" fs] s have "P k j'" by auto
    with Cons.prems True have "\<forall>i<n. P i (js[k := j'] ! i)"
      by (simp add: nth_list_update)
    from Cons.IH[OF _ this, of fs' "t @ map (Pair (who k)) ev"] Cons.prems(1) True s
    show ?thesis by simp
  qed
qed


















section \<open>The batch: a job that fails\<close>

lemma before_goto_step:
  "page_goto E u u = NavError e \<Longrightarrow> before_goto j \<Longrightarrow> before_goto (fst (mirror_resume E u j fs))"
  by (cases j) (auto simp: before_goto_def is_rejected_def split: option.splits)

lemma before_content_step:
  "new_URL (host_parser E) u = None \<Longrightarrow> before_content j
     \<Longrightarrow> before_content (fst (mirror_resume E u j fs))"
  by (cases j)
     (auto simp: before_content_def before_goto_def is_rejected_def
           split: option.splits nav.splits sum.splits)

lemma before_content_unresolved: "before_content j \<Longrightarrow> \<not> is_resolved j"
  by (cases j) (auto simp: before_content_def before_goto_def is_rejected_def is_resolved_def
                     split: outcome.splits)

lemma before_goto_unresolved: "before_goto j \<Longrightarrow> \<not> is_resolved j"
  by (rule before_content_unresolved) (simp add: before_content_def)

text \<open>A job that can never resolve keeps the batch from completing, under every schedule.\<close>

lemma stuck_job_stops_batch:
  assumes i: "i < length urls"
    and start: "P AwaitLaunch"
    and step: "\<And>j fs. P j \<Longrightarrow> P (fst (mirror_resume E (urls ! i) j fs))"
    and unresolved: "\<And>j. P j \<Longrightarrow> \<not> is_resolved j"
  shows "fst (mirror_phase E urls sched fs) \<noteq> Completed"
proof -
  let ?js0 = "map (\<lambda>u. fst (mirror_start u)) urls"
  let ?t0 = "(MainFn, Log ''Starting mirroring process...'') # start_all MirrorJob (map mirror_start urls)"
  let ?b = "run_sched (\<lambda>k. mirror_resume E (urls ! k)) MirrorJob sched (?js0, fs, ?t0)"
  have "\<forall>k<length urls. (k = i \<longrightarrow> P (fst ?b ! k))"
  proof (rule run_sched_keeps[where P = "\<lambda>k j. k = i \<longrightarrow> P j"])
    fix k j fs'
    assume "k = i \<longrightarrow> P j"
    then show "k = i \<longrightarrow> P (fst (mirror_resume E (urls ! k) j fs'))"
      using step[of j fs'] by blast
  next
    show "length ?js0 = length urls" by simp
  next
    show "\<forall>k<length urls. k = i \<longrightarrow> P (?js0 ! k)"
      using start by (simp add: mirror_start_def)
  qed
  with i have "P (fst ?b ! i)" by simp
  then have "\<not> is_resolved (fst ?b ! i)" by (rule unresolved)
  moreover have "length (fst ?b) = length urls" by (simp add: run_sched_length)
  ultimately have "\<not> list_all is_resolved (fst ?b)"
    using i by (auto simp: list_all_length)
  then show ?thesis
    by (cases ?b) (simp add: mirror_phase_def)
qed

lemma render_failure_stops_batch:
  assumes "i < length urls" and "page_goto E (urls ! i) (urls ! i) = NavError e"
  shows "fst (mirror_phase E urls sched fs) \<noteq> Completed"
  by (rule stuck_job_stops_batch[OF assms(1), where P = before_goto])
     (simp_all add: before_goto_def before_goto_step[OF assms(2), unfolded before_goto_def]
        before_goto_unresolved[unfolded before_goto_def])

lemma unparseable_url_stops_batch:
  assumes "i < length urls" and "new_URL (host_parser E) (urls ! i) = None"
  shows "fst (mirror_phase E urls sched fs) \<noteq> Completed"
  by (rule stuck_job_stops_batch[OF assms(1), where P = before_content])
     (simp_all add: before_content_step[OF assms(2)] before_content_unresolved,
      simp add: before_content_def before_goto_def)

lemma main_completes_only_if:
  "fst (main E m True urls sched1 sched2 fs) = Completed \<Longrightarrow>
   \<exists>fs1. fst (mirror_phase E urls sched2 fs1) = Completed"
  by (auto simp: main_def Let_def split: prod.splits if_splits) (metis fst_conv)


lemma main_render_failure:
  assumes "i < length urls" and "page_goto E (urls ! i) (urls ! i) = NavError e"
  shows "fst (main E m True urls sched1 sched2 fs) \<noteq> Completed"
  using main_completes_only_if[of E m urls sched1 sched2 fs] render_failure_stops_batch[OF assms]
  by blast

text \<open>
  C1 is not what the code does for a mirror job: outside the loop over the assets
  \<^verbatim>\<open>mirror\<close> catches nothing, and \<^verbatim>\<open>main\<close> awaits the jobs with \<^verbatim>\<open>Promise.all\<close>. In a batch
  of three URLs whose second page does not load, \<^verbatim>\<open>main\<close> never completes, whatever the
  schedules: its promise is rejected, the line that ends the mirroring is not printed and
  the browser of the second job is not closed. When every job gets its turns, the first
  and the third still write their pages; when the second job fails first, \<^verbatim>\<open>main\<close> is
  rejected before the others have written anything.
\<close>

theorem render_failure_fails_the_batch:
  "(\<forall>metadata sched1 sched2 fs.
      fst (main second_fails metadata True three_urls sched1 sched2 fs) \<noteq> Completed)
   \<and> (case main second_fails False True three_urls [0, 1, 2] round_robin empty_fs of
        (st, fs, t) \<Rightarrow>
          (st, map (node_at fs) [loc_of ''outputRoot/one.example/index.html'',
                                 loc_of ''outputRoot/three.example/index.html''],
           filter (\<lambda>x. x = (MainFn, Log ''Mirroring process completed.'')
                        \<or> x = (MirrorJob 1, Close)) t))
     = (Failed, [Some (File ''<html>https://one.example''), Some (File ''<html>https://three.example'')], [])
   \<and> (case main second_fails False True three_urls [0, 1, 2] [1, 1, 1] empty_fs of
        (st, fs, t) \<Rightarrow>
          (st, map (node_at fs) [loc_of ''outputRoot/one.example/index.html'',
                                 loc_of ''outputRoot/three.example/index.html'']))
     = (Failed, [None, None])"
proof -
  have i: "1 < length three_urls" by (simp add: three_urls_def)
  have g: "page_goto second_fails (three_urls ! 1) (three_urls ! 1)
      = NavError (BrowserError ''net::ERR_NAME_NOT_RESOLVED'')"
    by (simp add: three_urls_def second_fails_def)
  have a: "\<forall>metadata sched1 sched2 fs.
      fst (main second_fails metadata True three_urls sched1 sched2 fs) \<noteq> Completed"
    using main_render_failure[OF i g] by blast
  have b: "(case main second_fails False True three_urls [0, 1, 2] round_robin empty_fs of
        (st, fs, t) \<Rightarrow>
          (st, map (node_at fs) [loc_of ''outputRoot/one.example/index.html'',
                                 loc_of ''outputRoot/three.example/index.html''],
           filter (\<lambda>x. x = (MainFn, Log ''Mirroring process completed.'')
                        \<or> x = (MirrorJob 1, Close)) t))
     = (Failed, [Some (File ''<html>https://one.example''), Some (File ''<html>https://three.example'')], [])"
    by code_simp
  have c: "(case main second_fails False True three_urls [0, 1, 2] [1, 1, 1] empty_fs of
        (st, fs, t) \<Rightarrow>
          (st, map (node_at fs) [loc_of ''outputRoot/one.example/index.html'',
                                 loc_of ''outputRoot/three.example/index.html'']))
     = (Failed, [None, None])"
    by code_simp
  from a b c show ?thesis by blast
qed

lemma mirror_starts_with_launch:
  "\<exists>t. snd (snd (mirror E u fs)) = starting u # Launch # t"
  by (auto simp: mirror_def Let_def split: option.splits nav.splits sum.splits prod.splits)

lemma new_URL_empty: "new_URL hp [] = None"
  by code_simp

lemma invalid_unparseable: "\<not> isValidUrl hp u \<Longrightarrow> new_URL hp u = None"
  by (cases "u = []") (auto simp: isValidUrl_def new_URL_empty split: option.splits)

lemma goto_attempted:
  "launch E u = None \<Longrightarrow> newPage E u = None \<Longrightarrow> Goto u \<in> set (snd (snd (mirror E u fs)))"
  by (auto simp: mirror_def Let_def split: option.splits nav.splits sum.splits prod.splits)

text \<open>
  C3 holds of \<^verbatim>\<open>fetchAndParseURL\<close> and not of \<^verbatim>\<open>mirror\<close>, which never calls the validator.
  For a string that the validator rejects, the fetch job prints that it skips it and does
  nothing else. The mirror job launches a browser, navigates to the string once the
  browser and its page have opened, and is never resolved; so no batch that contains the
  string completes its mirror phase.
\<close>

theorem invalid_url_reaches_the_browser:
  assumes "\<not> isValidUrl (host_parser E) u"
  shows "fetchAndParseURL E u metadata fs = (fs, [Log (''Invalid URL skipped: '' @ u)])
    \<and> Launch \<in> set (snd (snd (mirror E u fs)))
    \<and> fst (mirror E u fs) \<noteq> Resolved
    \<and> (launch E u = None \<and> newPage E u = None \<longrightarrow> Goto u \<in> set (snd (snd (mirror E u fs))))
    \<and> (u \<in> set urls \<longrightarrow> fst (mirror_phase E urls sched fs) \<noteq> Completed)"
proof -
  note n = invalid_unparseable[OF assms]
  have f: "fetchAndParseURL E u metadata fs = (fs, [Log (''Invalid URL skipped: '' @ u)])"
    using assms by (simp add: fetchAndParseURL_def)
  have l: "Launch \<in> set (snd (snd (mirror E u fs)))"
    using mirror_starts_with_launch[of E u fs] by auto
  have r: "fst (mirror E u fs) \<noteq> Resolved"
    using mirror_resolved_only_if[of E u fs] n by auto
  have b: "fst (mirror_phase E urls sched fs) \<noteq> Completed" if "u \<in> set urls"
  proof -
    from that obtain i where "i < length urls" "urls ! i = u"
      by (auto simp: in_set_conv_nth)
    with n unparseable_url_stops_batch[of i urls E sched fs] show ?thesis by simp
  qed
  from f l r b goto_attempted[of E u fs] show ?thesis by blast
qed

theorem invalid_url_reaches_the_browser_witness:
  "\<not> isValidUrl (host_parser strict_browser) ''not a url''
   \<and> (case main strict_browser False True [''not a url''] [] [0, 0, 0] empty_fs of
        (st, fs, t) \<Rightarrow> (st, t))
     = (Failed,
        [(MainFn, LogList ''Starting processing with URLs:'' [''not a url'']),
         (FetchJob 0, Log ''Invalid URL skipped: not a url''),
         (MainFn, Log ''Starting mirroring process...''),
         (MirrorJob 0, starting ''not a url''), (MirrorJob 0, Launch),
         (MirrorJob 0, NewPage), (MirrorJob 0, Goto ''not a url'')])
   \<and> Launch \<in> set (snd (snd (mirror strict_browser ''not a url'' empty_fs)))
   \<and> Goto ''not a url'' \<in> set (snd (snd (mirror strict_browser ''not a url'' empty_fs)))
   \<and> fst (mirror_phase strict_browser [''not a url''] [0, 0, 0] empty_fs) \<noteq> Completed"
proof -
  have v: "\<not> isValidUrl (host_parser strict_browser) ''not a url''" by code_simp
  have l: "launch strict_browser ''not a url'' = None \<and> newPage strict_browser ''not a url'' = None"
    by code_simp
  have m: "(case main strict_browser False True [''not a url''] [] [0, 0, 0] empty_fs of
        (st, fs, t) \<Rightarrow> (st, t))
     = (Failed,
        [(MainFn, LogList ''Starting processing with URLs:'' [''not a url'']),
         (FetchJob 0, Log ''Invalid URL skipped: not a url''),
         (MainFn, Log ''Starting mirroring process...''),
         (MirrorJob 0, starting ''not a url''), (MirrorJob 0, Launch),
         (MirrorJob 0, NewPage), (MirrorJob 0, Goto ''not a url'')])"
    by code_simp
  from invalid_url_reaches_the_browser[OF v, of False empty_fs "[''not a url'']" "[0, 0, 0]"] l m v
  show ?thesis by simp
qed

end
